theory Spec2Isabelle
  imports Main
begin

section \<open>Artifact resolution and download pipeline of build.js\<close>

text \<open>
  The script resolves a download URL for each (environment, component, version) entry
  of a configuration, and downloads the artifact into a per-architecture directory tree
  unless the file is already there. The development embeds \<^verbatim>\<open>generateDownloadLink\<close>,
  \<^verbatim>\<open>checkFileExists\<close>, \<^verbatim>\<open>downloadFile\<close> and the loop of
  \<^verbatim>\<open>installAllSoftware\<close>. JavaScript strings are \<^typ>\<open>string\<close>; an exception
  or a rejected promise is the \<open>Inl\<close> of a sum. Reading and parsing the configuration
  file, the three runs of \<^verbatim>\<open>main\<close> and what the script prints are left out.
\<close>

subsection \<open>Errors\<close>

text \<open>
  Every error of the script is a JavaScript \<^verbatim>\<open>Error\<close>; the constructors below keep
  the parts of the message that vary:
  \<^item> \<open>UnsupportedSoftware s\<close> is \<^verbatim>\<open>Error(`Unsupported software: ${s}`)\<close>;
  \<^item> \<open>UnsupportedPlatform l p\<close> is \<^verbatim>\<open>Error(`Unsupported platform for ${l}: ${p}`)\<close>,
    with \<open>l\<close> one of PostgreSQL, Redis, JDK;
  \<^item> \<open>DownloadHTTPError c\<close> is the error of line 115, whose message ends with the
    status code \<open>c\<close>;
  \<^item> \<open>InvalidRequest e\<close> is the error \<open>e\<close> that \<^verbatim>\<open>https.get\<close> threw for a URL it
    does not accept;
  \<^item> \<open>NetworkError e\<close> is the error \<open>e\<close> that the request object emitted;
  \<^item> \<open>FsError e\<close> is the error \<open>e\<close> thrown by a file-system call
    (\<^verbatim>\<open>mkdir\<close>, \<^verbatim>\<open>rename\<close>, \<^verbatim>\<open>unlink\<close>).
\<close>

datatype error =
    UnsupportedSoftware string
  | UnsupportedPlatform string string
  | DownloadHTTPError nat
  | InvalidRequest string
  | NetworkError string
  | FsError string

subsection \<open>The prefix table and its lookup\<close>

text \<open>
  \<^verbatim>\<open>downloadPrefixes\<close> is an object literal with three own properties.
\<close>

definition downloadPrefixes :: "(string \<times> string) list" where
  "downloadPrefixes =
     [(''jdk'', ''https://github.com/shenxinli/java-release/releases/download''),
      (''redis'', ''https://github.com/shenxinli/redis-release/releases/download''),
      (''postgresql'', ''https://github.com/shenxinli/postgresql-release/releases/download'')]"

text \<open>
  The lookup \<^verbatim>\<open>downloadPrefixes[software]\<close> is a JavaScript property read: when the
  object has no own property of that name, the read continues in its prototype,
  \<^verbatim>\<open>Object.prototype\<close>. The names below are the properties of
  \<^verbatim>\<open>Object.prototype\<close>; their values are built-in functions (the object itself for
  \<^verbatim>\<open>__proto__\<close>), all of them truthy. The script uses the value it reads in two
  ways only: the test \<^verbatim>\<open>!prefix\<close> and the template literal \<^verbatim>\<open>${prefix}\<close>. So the
  model returns \<open>None\<close> where the read gives \<^verbatim>\<open>undefined\<close>, and otherwise the
  string the template literal renders: the URL for an own property, and for an inherited
  one the text Node prints for a built-in function or a plain object.
\<close>

definition nativeFunction :: "string \<Rightarrow> string" where
  "nativeFunction name = ''function '' @ name @ ''() { [native code] }''"

definition objectPrototype :: "(string \<times> string) list" where
  "objectPrototype =
     [(''constructor'', nativeFunction ''Object''),
      (''__defineGetter__'', nativeFunction ''__defineGetter__''),
      (''__defineSetter__'', nativeFunction ''__defineSetter__''),
      (''hasOwnProperty'', nativeFunction ''hasOwnProperty''),
      (''__lookupGetter__'', nativeFunction ''__lookupGetter__''),
      (''__lookupSetter__'', nativeFunction ''__lookupSetter__''),
      (''isPrototypeOf'', nativeFunction ''isPrototypeOf''),
      (''propertyIsEnumerable'', nativeFunction ''propertyIsEnumerable''),
      (''toString'', nativeFunction ''toString''),
      (''valueOf'', nativeFunction ''valueOf''),
      (''__proto__'', ''[object Object]''),
      (''toLocaleString'', nativeFunction ''toLocaleString'')]"

definition lookupPrefix :: "string \<Rightarrow> string option" where
  "lookupPrefix software =
     (case map_of downloadPrefixes software of
        Some url \<Rightarrow> Some url
      | None \<Rightarrow> map_of objectPrototype software)"

subsection \<open>generateDownloadLink\<close>

text \<open>
  The version reaches the function from the parsed configuration and is used in template
  literals only, so the model takes the string it renders to. The warning printed for
  Redis on Windows is not modelled.
\<close>

definition generateDownloadLink :: "string \<Rightarrow> string \<Rightarrow> string \<Rightarrow> string \<Rightarrow> error + string" where
  "generateDownloadLink software version0 platform arch =
     (let version = (if software = ''redis'' \<and> platform = ''windows'' then ''5'' else version0)
      in case lookupPrefix software of
           None \<Rightarrow> Inl (UnsupportedSoftware software)
         | Some prefix \<Rightarrow>
             (case
                (if software = ''postgresql'' then
                   (if platform = ''windows'' then
                      Inr (''postgresql-'' @ version @ ''-windows-'' @ arch @ ''.zip'')
                    else if platform = ''linux'' then
                      Inr (''postgresql-'' @ version @ ''-linux-'' @ arch @ ''.tar.gz'')
                    else Inl (UnsupportedPlatform ''PostgreSQL'' platform))
                 else if software = ''redis'' then
                   (if platform = ''windows'' then
                      Inr (''redis-'' @ version @ ''-windows-'' @ arch @ ''.zip'')
                    else if platform = ''linux'' then
                      Inr (''redis-'' @ version @ ''-linux-'' @ arch @ ''.tar.gz'')
                    else Inl (UnsupportedPlatform ''Redis'' platform))
                 else if software = ''jdk'' then
                   (if platform = ''windows'' then
                      Inr (''openjdk-'' @ version @ ''-windows-'' @ arch @ ''.zip'')
                    else if platform = ''linux'' then
                      Inr (''openjdk-'' @ version @ ''-linux-'' @ arch @ ''.tar.gz'')
                    else Inl (UnsupportedPlatform ''JDK'' platform))
                 else
                   Inr (software @ ''-'' @ version @ ''-'' @ platform @ ''-'' @ arch @ ''.tar.gz''))
              of
                Inl e \<Rightarrow> Inl e
              | Inr filename \<Rightarrow> Inr (prefix @ ''/v'' @ version @ ''/'' @ filename)))"

subsection \<open>Paths\<close>

text \<open>
  \<^verbatim>\<open>path.join\<close> and \<^verbatim>\<open>path.basename\<close> belong to Node, not to the script; they are
  modelled as Node's POSIX implementation behaves. \<^verbatim>\<open>path.join\<close> drops empty
  arguments, joins the others with a slash and normalises the result: empty and
  \<^verbatim>\<open>.\<close> segments disappear, a \<^verbatim>\<open>..\<close> segment removes the segment before it (or is
  kept, for a relative path with nothing left to remove), and a leading and a trailing
  slash are preserved.
\<close>

fun splitOn :: "char \<Rightarrow> string \<Rightarrow> string list" where
  "splitOn c [] = [[]]"
| "splitOn c (x # xs) =
     (if x = c then [] # splitOn c xs
      else (case splitOn c xs of [] \<Rightarrow> [[x]] | s # ss \<Rightarrow> (x # s) # ss))"

fun joinSegments :: "string list \<Rightarrow> string" where
  "joinSegments [] = []"
| "joinSegments [s] = s"
| "joinSegments (s # t # ss) = s @ CHR ''/'' # joinSegments (t # ss)"

fun normalizeString :: "bool \<Rightarrow> string list \<Rightarrow> string list \<Rightarrow> string list" where
  "normalizeString allowAboveRoot res [] = res"
| "normalizeString allowAboveRoot res (seg # segs) =
     (if seg = [] \<or> seg = ''.'' then normalizeString allowAboveRoot res segs
      else if seg = ''..'' then
        (if res \<noteq> [] \<and> last res \<noteq> ''..'' then normalizeString allowAboveRoot (butlast res) segs
         else if allowAboveRoot then normalizeString allowAboveRoot (res @ [''..'']) segs
         else normalizeString allowAboveRoot res segs)
      else normalizeString allowAboveRoot (res @ [seg]) segs)"

definition path_normalize :: "string \<Rightarrow> string" where
  "path_normalize path =
     (if path = [] then ''.''
      else
        let isAbsolute = (hd path = CHR ''/'');
            trailingSeparator = (last path = CHR ''/'');
            p = joinSegments (normalizeString (\<not> isAbsolute) [] (splitOn CHR ''/'' path))
        in if p = [] then (if isAbsolute then ''/'' else if trailingSeparator then ''./'' else ''.'')
           else (if isAbsolute then ''/'' else []) @ p @ (if trailingSeparator then ''/'' else []))"

definition path_join :: "string list \<Rightarrow> string" where
  "path_join args =
     (let parts = filter (\<lambda>arg. arg \<noteq> []) args
      in if parts = [] then ''.'' else path_normalize (joinSegments parts))"

text \<open>
  \<^verbatim>\<open>path.basename\<close> ignores trailing slashes and returns what follows the last
  remaining slash.
\<close>

definition path_basename :: "string \<Rightarrow> string" where
  "path_basename path =
     rev (takeWhile (\<lambda>c. c \<noteq> CHR ''/'') (dropWhile (\<lambda>c. c = CHR ''/'') (rev path)))"

subsection \<open>The world: files and network\<close>

text \<open>
  The state the script acts on is the set of paths that exist on disk and the list of
  URLs it has passed to \<^verbatim>\<open>https.get\<close> so far, oldest first. What the environment
  does is an input:
  \<^item> \<open>net env h url\<close> is what happens once the script has opened the write stream
    and called \<^verbatim>\<open>https.get(url, ...)\<close>, after the requests \<open>h\<close>: the call throws,
    as it does for a string that is no https URL (\<open>Thrown\<close>); or the temporary file
    cannot be opened and the write stream emits \<^verbatim>\<open>'error'\<close> (\<open>OpenFailed\<close>); or
    the request object emits \<^verbatim>\<open>'error'\<close> before any response (\<open>RequestError\<close>);
    or the callback receives a response with a status code, the value of its
    \<^verbatim>\<open>Location\<close> header and a body. The body streams to its end
    (\<open>Complete\<close>); or the request object emits \<^verbatim>\<open>'error'\<close> while it streams, as
    it does for an error of the socket (\<open>Aborted\<close>); or the connection is closed before
    the body is complete (\<open>Truncated\<close>), which Node reports on the response object
    (\<^verbatim>\<open>'aborted'\<close>, \<^verbatim>\<open>'error'\<close>, \<^verbatim>\<open>'close'\<close>) and not on the request; or
    writing the body to the temporary file fails and the write stream emits
    \<^verbatim>\<open>'error'\<close> (\<open>WriteFailed\<close>);
  \<^item> \<open>mkdir_error env p\<close> is the error, if any, of creating the parent directory of
    \<open>p\<close>; \<open>unlink_error env p\<close> and \<open>rename_error env p q\<close> are the errors, if any,
    of deleting \<open>p\<close> and of renaming \<open>p\<close> to \<open>q\<close>.
  Each request has one outcome, and nothing but the script changes the files.
\<close>

datatype body = Complete | Aborted string | Truncated | WriteFailed string

datatype reply =
    Thrown string
  | OpenFailed string
  | RequestError string
  | Response nat string body

record env =
  net :: "string list \<Rightarrow> string \<Rightarrow> reply"
  mkdir_error :: "string \<Rightarrow> string option"
  unlink_error :: "string \<Rightarrow> string option"
  rename_error :: "string \<Rightarrow> string \<Rightarrow> string option"

record world =
  files :: "string set"
  requests :: "string list"

definition checkFileExists :: "world \<Rightarrow> string \<Rightarrow> bool" where
  "checkFileExists w filePath = (filePath \<in> files w)"

text \<open>
  \<^verbatim>\<open>fs.createWriteStream\<close> returns at once and never throws: the file is created, or
  a failure to open it or to write to it arrives later as an \<^verbatim>\<open>'error'\<close> event of the
  stream, the outcomes \<open>OpenFailed\<close> and \<open>WriteFailed\<close> above.
\<close>

definition createWriteStream :: "world \<Rightarrow> string \<Rightarrow> world" where
  "createWriteStream w p = w\<lparr>files := insert p (files w)\<rparr>"

definition https_get :: "env \<Rightarrow> world \<Rightarrow> string \<Rightarrow> reply \<times> world" where
  "https_get e w url = (net e (requests w) url, w\<lparr>requests := requests w @ [url]\<rparr>)"

definition unlink :: "env \<Rightarrow> world \<Rightarrow> string \<Rightarrow> error + world" where
  "unlink e w p =
     (case unlink_error e p of
        Some err \<Rightarrow> Inl (FsError err)
      | None \<Rightarrow>
          if p \<in> files w then Inr (w\<lparr>files := files w - {p}\<rparr>) else Inl (FsError ''ENOENT''))"

definition rename :: "env \<Rightarrow> world \<Rightarrow> string \<Rightarrow> string \<Rightarrow> error + world" where
  "rename e w oldPath newPath =
     (case rename_error e oldPath newPath of
        Some err \<Rightarrow> Inl (FsError err)
      | None \<Rightarrow>
          if oldPath \<in> files w then Inr (w\<lparr>files := insert newPath (files w - {oldPath})\<rparr>)
          else Inl (FsError ''ENOENT''))"

text \<open>
  The handler of the request's \<^verbatim>\<open>'error'\<close> event (lines 153 to 159): the temporary
  file is deleted inside a \<^verbatim>\<open>try\<close> whose \<^verbatim>\<open>catch\<close> is empty, then the promise is
  rejected with the error.
\<close>

definition onRequestError :: "env \<Rightarrow> world \<Rightarrow> string \<Rightarrow> string \<Rightarrow> (error + string) \<times> world" where
  "onRequestError e w tempPath err =
     (case unlink e w tempPath of
        Inl _ \<Rightarrow> (Inl (NetworkError err), w)
      | Inr w' \<Rightarrow> (Inl (NetworkError err), w'))"

subsection \<open>downloadFile\<close>

text \<open>
  A redirect calls \<^verbatim>\<open>downloadFile\<close> again with the \<^verbatim>\<open>Location\<close> header and the
  same destination, without a bound on the number of redirects, so the function is
  partial. \<open>None\<close> is a call that never returns to its caller: its promise never
  settles, or the process ends. An exception thrown by \<^verbatim>\<open>https.get\<close> inside the
  executor of the promise rejects the promise.

  The script listens to \<^verbatim>\<open>'data'\<close> and \<^verbatim>\<open>'end'\<close> on the response, to
  \<^verbatim>\<open>'finish'\<close> on the write stream and to \<^verbatim>\<open>'error'\<close> on the request, and to
  nothing else.
  \<^item> When the body is truncated none of its callbacks that settle the promise runs: the
    response never emits \<^verbatim>\<open>'end'\<close>, so \<^verbatim>\<open>pipe\<close> never ends the write stream,
    which never emits \<^verbatim>\<open>'finish'\<close>; the request emits no \<^verbatim>\<open>'error'\<close>. The
    promise stays pending.
  \<^item> When the write stream emits \<^verbatim>\<open>'error'\<close> there is no listener for it: Node
    throws the error as an uncaught exception and the process ends.
  Progress output is not modelled.
\<close>

partial_function (option) downloadFile ::
  "env \<Rightarrow> world \<Rightarrow> string \<Rightarrow> string \<Rightarrow> ((error + string) \<times> world) option" where
  "downloadFile e w url destinationPath =
     (if checkFileExists w destinationPath then Some (Inr destinationPath, w)
      else
        case mkdir_error e destinationPath of
          Some err \<Rightarrow> Some (Inl (FsError err), w)
        | None \<Rightarrow>
            let tempPath = destinationPath @ ''.tmp'';
                w1 = createWriteStream w tempPath;
                r = https_get e w1 url;
                w2 = snd r
            in case fst r of
                 Thrown err \<Rightarrow> Some (Inl (InvalidRequest err), w2)
               | OpenFailed err \<Rightarrow> None
               | RequestError err \<Rightarrow> Some (onRequestError e w2 tempPath err)
               | Response statusCode location content \<Rightarrow>
                   if statusCode = 302 \<or> statusCode = 301 then
                     downloadFile e w2 location destinationPath
                   else if statusCode \<noteq> 200 then Some (Inl (DownloadHTTPError statusCode), w2)
                   else
                     (case content of
                        Aborted err \<Rightarrow> Some (onRequestError e w2 tempPath err)
                      | Truncated \<Rightarrow> None
                      | WriteFailed err \<Rightarrow> None
                      | Complete \<Rightarrow>
                          (case rename e w2 tempPath destinationPath of
                             Inl err \<Rightarrow> Some (Inl err, w2)
                           | Inr w3 \<Rightarrow> Some (Inr destinationPath, w3))))"

declare downloadFile.simps [code]

subsection \<open>installAllSoftware\<close>

text \<open>
  The configuration is given as \<^verbatim>\<open>Object.entries\<close> enumerates it: a list of
  environments, each with the list of its (component key, version) entries. \<open>root\<close> is
  \<^verbatim>\<open>__dirname\<close>. The regular expression \<^verbatim>\<open>/-version$/\<close> removes one
  \<^verbatim>\<open>-version\<close> at the end of the key.
\<close>

definition stripVersionSuffix :: "string \<Rightarrow> string" where
  "stripVersionSuffix componentKey =
     (let n = length componentKey - 8
      in if 8 \<le> length componentKey \<and> drop n componentKey = ''-version''
         then take n componentKey else componentKey)"

text \<open>
  Lines 206 to 208: the URL of a job and the file it is downloaded to.
\<close>

definition jobTarget ::
  "string \<Rightarrow> string \<Rightarrow> string \<Rightarrow> string \<Rightarrow> string \<Rightarrow> string \<Rightarrow> error + (string \<times> string)" where
  "jobTarget root platform arch envName component version =
     (case generateDownloadLink component version platform arch of
        Inl err \<Rightarrow> Inl err
      | Inr downloadUrl \<Rightarrow>
          let destinationDir = path_join [root, arch, envName, ''bin''];
              destinationFile = path_join [destinationDir, path_basename downloadUrl]
          in Inr (downloadUrl, destinationFile))"

text \<open>
  The body of the inner loop (lines 203 to 218). The \<^verbatim>\<open>try\<close> catches what
  \<^verbatim>\<open>generateDownloadLink\<close> throws and what \<^verbatim>\<open>downloadFile\<close> rejects with; either
  way the outcome is printed and the loop goes on. The report of a job is the component,
  the version and that outcome.
\<close>

type_synonym report = "string \<times> string \<times> (error + string)"

definition installJob ::
  "env \<Rightarrow> string \<Rightarrow> string \<Rightarrow> string \<Rightarrow> string \<Rightarrow> world \<Rightarrow> string \<times> string \<Rightarrow> (report \<times> world) option" where
  "installJob e root platform arch envName w entry =
     (let component = stripVersionSuffix (fst entry);
          version = snd entry
      in case jobTarget root platform arch envName component version of
           Inl err \<Rightarrow> Some ((component, version, Inl err), w)
         | Inr target \<Rightarrow>
             (case downloadFile e w (fst target) (snd target) of
                None \<Rightarrow> None
              | Some (outcome, w') \<Rightarrow> Some ((component, version, outcome), w')))"

fun installEnv ::
  "env \<Rightarrow> string \<Rightarrow> string \<Rightarrow> string \<Rightarrow> string \<Rightarrow> world \<Rightarrow> (string \<times> string) list \<Rightarrow> (report list \<times> world) option" where
  "installEnv e root platform arch envName w [] = Some ([], w)"
| "installEnv e root platform arch envName w (entry # entries) =
     (case installJob e root platform arch envName w entry of
        None \<Rightarrow> None
      | Some (r, w') \<Rightarrow>
          (case installEnv e root platform arch envName w' entries of
             None \<Rightarrow> None
           | Some (rs, w'') \<Rightarrow> Some (r # rs, w'')))"

fun installAllSoftware ::
  "env \<Rightarrow> string \<Rightarrow> string \<Rightarrow> string \<Rightarrow> world \<Rightarrow> (string \<times> (string \<times> string) list) list \<Rightarrow> (report list \<times> world) option" where
  "installAllSoftware e root platform arch w [] = Some ([], w)"
| "installAllSoftware e root platform arch w ((envName, envConfig) # config) =
     (case installEnv e root platform arch envName w envConfig of
        None \<Rightarrow> None
      | Some (rs, w') \<Rightarrow>
          (case installAllSoftware e root platform arch w' config of
             None \<Rightarrow> None
           | Some (rs', w'') \<Rightarrow> Some (rs @ rs', w'')))"

subsection \<open>Notions used in the statements\<close>

text \<open>
  The world right after \<^verbatim>\<open>downloadFile\<close> has opened the write stream on the temporary
  file and issued its request for \<open>url\<close>.
\<close>

definition afterRequest :: "world \<Rightarrow> string \<Rightarrow> string \<Rightarrow> world" where
  "afterRequest w url d = (createWriteStream w (d @ ''.tmp''))\<lparr>requests := requests w @ [url]\<rparr>"

text \<open>
  \<open>followRedirects n e d w url\<close> is the world and the URL that a download of \<open>url\<close>
  to \<open>d\<close> has reached after following at most \<open>n\<close> redirect responses (fewer when a
  request on the way is answered otherwise). With it a statement about the response to
  a request covers the first request and every request made after redirects.
\<close>

fun followRedirects :: "nat \<Rightarrow> env \<Rightarrow> string \<Rightarrow> world \<Rightarrow> string \<Rightarrow> world \<times> string" where
  "followRedirects 0 e d w url = (w, url)"
| "followRedirects (Suc n) e d w url =
     (case net e (requests w) url of
        Thrown err \<Rightarrow> (w, url)
      | OpenFailed err \<Rightarrow> (w, url)
      | RequestError err \<Rightarrow> (w, url)
      | Response statusCode location content \<Rightarrow>
          if statusCode = 302 \<or> statusCode = 301
          then followRedirects n e d (afterRequest w url d) location
          else (w, url))"

text \<open>
  \<^verbatim>\<open>__dirname\<close> is an absolute, normalised path without a trailing slash (unless the
  script sits in the root directory). A plain segment is a file or directory name.
\<close>

definition plainSegment :: "string \<Rightarrow> bool" where
  "plainSegment s = (s \<noteq> [] \<and> CHR ''/'' \<notin> set s \<and> s \<noteq> ''.'' \<and> s \<noteq> ''..'')"

definition normalizedAbsolute :: "string \<Rightarrow> bool" where
  "normalizedAbsolute p =
     (p \<noteq> [] \<and> hd p = CHR ''/'' \<and> last p \<noteq> CHR ''/'' \<and> path_normalize p = p)"

text \<open>
  The jobs of a configuration, in the order of the two loops: the component (the key
  without its suffix) and the version of every entry.
\<close>

definition jobsOf :: "(string \<times> (string \<times> string) list) list \<Rightarrow> (string \<times> string) list" where
  "jobsOf config =
     concat (map (\<lambda>environment.
       map (\<lambda>entry. (stripVersionSuffix (fst entry), snd entry)) (snd environment)) config)"

subsection \<open>A sample environment\<close>

text \<open>
  A server that redirects, serves, refuses and cuts connections, with a file system that
  never fails; the examples below run the script against it, from an empty disk.
\<close>

definition sampleNet :: "string list \<Rightarrow> string \<Rightarrow> reply" where
  "sampleNet history url =
     (if url = ''https://example.org/moved'' then Response 302 ''https://example.org/file'' Complete
      else if url = ''https://example.org/file'' then Response 200 [] Complete
      else if url = ''https://example.org/gone'' then Response 301 ''https://example.org/missing'' Complete
      else if url = ''https://example.org/cut'' then Response 200 [] (Aborted ''ECONNRESET'')
      else if url = ''https://example.org/down'' then RequestError ''ECONNREFUSED''
      else if url = ''http://example.org/file'' then Thrown ''ERR_INVALID_PROTOCOL''
      else if url = ''https://github.com/shenxinli/redis-release/releases/download/v7/redis-7-linux-amd64.tar.gz''
        then Response 200 [] Complete
      else Response 404 [] Complete)"

definition sampleEnv :: env where
  "sampleEnv =
     \<lparr>net = sampleNet, mkdir_error = (\<lambda>p. None), unlink_error = (\<lambda>p. None),
      rename_error = (\<lambda>p q. None)\<rparr>"

text \<open>The same server, on a file system that refuses to delete.\<close>

definition stubbornEnv :: env where
  "stubbornEnv = sampleEnv\<lparr>unlink_error := (\<lambda>p. Some ''EPERM'')\<rparr>"

text \<open>A server that closes every connection in the middle of the body.\<close>

definition cuttingEnv :: env where
  "cuttingEnv = sampleEnv\<lparr>net := (\<lambda>history url. Response 200 [] Truncated)\<rparr>"

text \<open>A server that redirects every URL to itself.\<close>

definition loopEnv :: env where
  "loopEnv = sampleEnv\<lparr>net := (\<lambda>history url. Response 302 url Complete)\<rparr>"

definition emptyDisk :: world where
  "emptyDisk = \<lparr>files = {}, requests = []\<rparr>"

text \<open>The disk and the requests after the sample download through one redirect.\<close>

definition cachedDisk :: world where
  "cachedDisk =
     \<lparr>files = {''/srv/cache/file.zip''},
      requests = [''https://example.org/moved'', ''https://example.org/file'']\<rparr>"

text \<open>
  A configuration of two environments, and what a run of it on the sample server from
  \<^verbatim>\<open>/srv/backend\<close> leaves: the disk and the requests after its jdk job and after
  the whole run.
\<close>

definition sampleConfig :: "(string \<times> (string \<times> string) list) list" where
  "sampleConfig =
     [(''prod'', [(''nginx-version'', ''1.25''), (''jdk-version'', ''17'')]),
      (''test'', [(''redis-version'', ''7'')])]"

text \<open>
  The sample server again, once cutting the connection in the middle of the jdk archive,
  once with a directory in which the temporary file of the jdk archive cannot be opened.
\<close>

definition cutJdkEnv :: env where
  "cutJdkEnv =
     sampleEnv\<lparr>net := (\<lambda>history url.
       if url = ''https://github.com/shenxinli/java-release/releases/download/v17/openjdk-17-linux-amd64.tar.gz''
       then Response 200 [] Truncated else sampleNet history url)\<rparr>"

definition readOnlyEnv :: env where
  "readOnlyEnv =
     sampleEnv\<lparr>net := (\<lambda>history url.
       if url = ''https://github.com/shenxinli/java-release/releases/download/v17/openjdk-17-linux-amd64.tar.gz''
       then OpenFailed ''EACCES'' else sampleNet history url)\<rparr>"

definition afterJdkJob :: world where
  "afterJdkJob =
     \<lparr>files = {''/srv/backend/amd64/prod/bin/openjdk-17-linux-amd64.tar.gz.tmp''},
      requests =
        [''https://github.com/shenxinli/java-release/releases/download/v17/openjdk-17-linux-amd64.tar.gz'']\<rparr>"

definition afterSampleRun :: world where
  "afterSampleRun =
     \<lparr>files = {''/srv/backend/amd64/test/bin/redis-7-linux-amd64.tar.gz'',
               ''/srv/backend/amd64/prod/bin/openjdk-17-linux-amd64.tar.gz.tmp''},
      requests =
        [''https://github.com/shenxinli/java-release/releases/download/v17/openjdk-17-linux-amd64.tar.gz'',
         ''https://github.com/shenxinli/redis-release/releases/download/v7/redis-7-linux-amd64.tar.gz'']\<rparr>"

section \<open>Properties of the link resolver\<close>

lemma lookupPrefix_redis:
  "lookupPrefix ''redis'' = Some ''https://github.com/shenxinli/redis-release/releases/download''"
  by (simp add: lookupPrefix_def downloadPrefixes_def)

text \<open>
  C1. For every version and every architecture, resolving Redis for Windows ignores the
  requested version: the result is the Redis prefix followed by
  \<^verbatim>\<open>/v5/redis-5-windows-<arch>.zip\<close>.
\<close>

theorem redis_windows_fixed_version:
  "generateDownloadLink ''redis'' version ''windows'' arch =
     Inr (''https://github.com/shenxinli/redis-release/releases/download''
          @ ''/v5/redis-5-windows-'' @ arch @ ''.zip'')"
  by (simp add: generateDownloadLink_def lookupPrefix_redis)

text \<open>
  What the guard on the prefix and the platform checks do reject: a name for which the
  property read finds nothing, and any platform but the two for the three named products.
\<close>

lemma unsupported_software_rejected:
  "lookupPrefix software = None \<Longrightarrow>
   generateDownloadLink software version platform arch = Inl (UnsupportedSoftware software)"
  by (simp add: generateDownloadLink_def)

lemma unsupported_platform_rejected:
  assumes "platform \<noteq> ''linux''" and "platform \<noteq> ''windows''"
  shows "generateDownloadLink ''postgresql'' version platform arch =
           Inl (UnsupportedPlatform ''PostgreSQL'' platform)
       \<and> generateDownloadLink ''redis'' version platform arch =
           Inl (UnsupportedPlatform ''Redis'' platform)
       \<and> generateDownloadLink ''jdk'' version platform arch =
           Inl (UnsupportedPlatform ''JDK'' platform)"
  using assms by (simp add: generateDownloadLink_def lookupPrefix_def downloadPrefixes_def)

text \<open>
  C2, as the code has it. A name other than jdk, redis and postgresql reaches the generic
  file name only past the guard on the prefix: when the property read finds nothing,
  resolution fails with \<open>UnsupportedSoftware\<close>; when it finds a prefix, the URL is that
  prefix followed by \<^verbatim>\<open>/v<version>/<software>-<version>-<platform>-<arch>.tar.gz\<close>,
  whatever the platform.
\<close>

theorem fallback_requires_prefix:
  assumes "software \<notin> {''jdk'', ''redis'', ''postgresql''}"
  shows "generateDownloadLink software version platform arch =
    (case lookupPrefix software of
       None \<Rightarrow> Inl (UnsupportedSoftware software)
     | Some prefix \<Rightarrow>
         Inr (prefix @ ''/v'' @ version @ ''/'' @
              software @ ''-'' @ version @ ''-'' @ platform @ ''-'' @ arch @ ''.tar.gz''))"
  using assms by (simp add: generateDownloadLink_def split: option.splits)

theorem fallback_requires_prefix_witness:
  "''mysql'' \<notin> {''jdk'', ''redis'', ''postgresql''}
   \<and> generateDownloadLink ''mysql'' ''8'' ''darwin'' ''arm64'' = Inl (UnsupportedSoftware ''mysql'')"
  using fallback_requires_prefix [of "''mysql''" "''8''" "''darwin''" "''arm64''"]
  by (simp add: lookupPrefix_def downloadPrefixes_def objectPrototype_def)

text \<open>
  C2 as stated fails: nginx is outside the three names, and resolving it does not succeed.
\<close>

theorem fallback_counterexample:
  "''nginx'' \<notin> {''jdk'', ''redis'', ''postgresql''}
   \<and> generateDownloadLink ''nginx'' ''1.25'' ''linux'' ''amd64'' = Inl (UnsupportedSoftware ''nginx'')"
  by (simp add: generateDownloadLink_def lookupPrefix_def downloadPrefixes_def objectPrototype_def)

text \<open>
  C8. Resolution is meant to fail for every software name without a registered prefix.
  It does not for the names of the properties that \<^verbatim>\<open>downloadPrefixes\<close> inherits:
  the read \<^verbatim>\<open>downloadPrefixes['constructor']\<close> gives the function \<^verbatim>\<open>Object\<close>, the
  guard \<^verbatim>\<open>!prefix\<close> lets it pass, and the result is a string that is no URL.
\<close>

theorem inherited_name_resolves:
  "generateDownloadLink ''constructor'' ''1'' ''linux'' ''amd64'' =
     Inr ''function Object() { [native code] }/v1/constructor-1-linux-amd64.tar.gz''"
  by (simp add: generateDownloadLink_def lookupPrefix_def downloadPrefixes_def objectPrototype_def
        nativeFunction_def)

section \<open>Properties of the paths\<close>

lemma splitOn_not_Nil: "splitOn c s \<noteq> []"
  by (induction s) (auto split: list.splits)

lemma splitOn_append: "splitOn c (a @ c # b) = splitOn c a @ splitOn c b"
proof (induction a)
  case Nil
  show ?case by simp
next
  case (Cons x xs)
  obtain s ss where "splitOn c xs = s # ss"
    using splitOn_not_Nil [of c xs] by (cases "splitOn c xs") auto
  with Cons show ?case by simp
qed

lemma splitOn_no_separator: "c \<notin> set s \<Longrightarrow> splitOn c s = [s]"
  by (induction s) auto

lemma normalizeString_append:
  "normalizeString f res (xs @ ys) = normalizeString f (normalizeString f res xs) ys"
  by (induction xs arbitrary: res) auto

lemma joinSegments_snoc:
  "A \<noteq> [] \<Longrightarrow> joinSegments (A @ [s]) = joinSegments A @ CHR ''/'' # s"
  by (induction A rule: joinSegments.induct) auto

lemma plainSegment_last: "plainSegment s \<Longrightarrow> last s \<noteq> CHR ''/''"
  unfolding plainSegment_def using last_in_set by metis

text \<open>
  Appending a plain segment to a normalised absolute path gives a normalised absolute
  path: normalisation has nothing to remove.
\<close>

lemma path_normalize_extend:
  assumes p: "normalizedAbsolute p" and s: "plainSegment s"
  shows "path_normalize (p @ CHR ''/'' # s) = p @ CHR ''/'' # s"
proof -
  define A where "A = normalizeString False [] (splitOn CHR ''/'' p)"
  from p have p1: "p \<noteq> []" "hd p = CHR ''/''" "last p \<noteq> CHR ''/''" "path_normalize p = p"
    by (auto simp: normalizedAbsolute_def)
  have pA: "joinSegments A \<noteq> [] \<and> p = CHR ''/'' # joinSegments A"
  proof (cases "joinSegments A = []")
    case True
    with p1 have "p = ''/''"
      by (simp add: path_normalize_def A_def)
    with p1(3) show ?thesis by simp
  next
    case False
    with p1 show ?thesis
      by (simp add: path_normalize_def A_def)
  qed
  then have A: "A \<noteq> []" by auto
  from s have s1: "s \<noteq> []" "CHR ''/'' \<notin> set s" "s \<noteq> ''.''" "s \<noteq> ''..''"
    by (auto simp: plainSegment_def)
  have split: "splitOn CHR ''/'' (p @ CHR ''/'' # s) = splitOn CHR ''/'' p @ [s]"
    by (simp add: splitOn_append splitOn_no_separator s1)
  have norm: "normalizeString False [] (splitOn CHR ''/'' (p @ CHR ''/'' # s)) = A @ [s]"
    using s1 by (simp add: split normalizeString_append A_def)
  have "path_normalize (p @ CHR ''/'' # s) = CHR ''/'' # joinSegments (A @ [s])"
    using p1(1,2) plainSegment_last [OF s] s1(1) A
    by (simp add: path_normalize_def norm joinSegments_snoc)
  also have "\<dots> = p @ CHR ''/'' # s"
    using pA A by (simp add: joinSegments_snoc)
  finally show ?thesis .
qed

lemma normalizedAbsolute_extend:
  assumes "normalizedAbsolute p" and "plainSegment s"
  shows "normalizedAbsolute (p @ CHR ''/'' # s)"
proof -
  from assms(2) have "s \<noteq> []" by (simp add: plainSegment_def)
  with assms plainSegment_last [OF assms(2)] show ?thesis
    using path_normalize_extend [OF assms]
    by (simp add: normalizedAbsolute_def)
qed

lemma path_join_two:
  assumes "normalizedAbsolute p" and "plainSegment s"
  shows "path_join [p, s] = p @ CHR ''/'' # s"
proof -
  from assms have "p \<noteq> []" "s \<noteq> []" by (auto simp: normalizedAbsolute_def plainSegment_def)
  then show ?thesis
    using path_normalize_extend [OF assms] by (simp add: path_join_def)
qed

lemma path_join_four:
  assumes p: "normalizedAbsolute p" and a: "plainSegment a"
    and b: "plainSegment b" and c: "plainSegment c"
  shows "path_join [p, a, b, c] = p @ CHR ''/'' # a @ CHR ''/'' # b @ CHR ''/'' # c
    \<and> normalizedAbsolute (p @ CHR ''/'' # a @ CHR ''/'' # b @ CHR ''/'' # c)"
proof -
  have pa: "normalizedAbsolute (p @ CHR ''/'' # a)"
    by (rule normalizedAbsolute_extend [OF p a])
  have pab: "normalizedAbsolute ((p @ CHR ''/'' # a) @ CHR ''/'' # b)"
    by (rule normalizedAbsolute_extend [OF pa b])
  have pabc: "normalizedAbsolute (((p @ CHR ''/'' # a) @ CHR ''/'' # b) @ CHR ''/'' # c)"
    by (rule normalizedAbsolute_extend [OF pab c])
  from p a b c have ne: "p \<noteq> []" "a \<noteq> []" "b \<noteq> []" "c \<noteq> []"
    by (auto simp: normalizedAbsolute_def plainSegment_def)
  have "path_join [p, a, b, c] =
      path_normalize (((p @ CHR ''/'' # a) @ CHR ''/'' # b) @ CHR ''/'' # c)"
    using ne by (simp add: path_join_def)
  also have "\<dots> = ((p @ CHR ''/'' # a) @ CHR ''/'' # b) @ CHR ''/'' # c"
    using pabc by (simp add: normalizedAbsolute_def)
  finally show ?thesis using pabc by simp
qed

text \<open>
  The file of a job: \<^verbatim>\<open><root>/<arch>/<environment>/bin/<basename of the URL>\<close>.
\<close>

lemma jobTarget_destination:
  assumes root: "normalizedAbsolute root" and arch: "plainSegment arch"
    and envName: "plainSegment envName"
    and url: "generateDownloadLink component version platform arch = Inr url"
    and base: "plainSegment (path_basename url)"
  shows "jobTarget root platform arch envName component version =
           Inr (url, root @ ''/'' @ arch @ ''/'' @ envName @ ''/bin/'' @ path_basename url)"
proof -
  have bin: "plainSegment ''bin''" by (simp add: plainSegment_def)
  note dir = path_join_four [OF root arch envName bin]
  from dir have "path_join [path_join [root, arch, envName, ''bin''], path_basename url]
      = (root @ CHR ''/'' # arch @ CHR ''/'' # envName @ CHR ''/'' # ''bin'')
          @ CHR ''/'' # path_basename url"
    using path_join_two [OF _ base] by simp
  then show ?thesis
    by (simp add: jobTarget_def url)
qed

section \<open>Properties of the downloader\<close>

text \<open>
  First the steps of \<^verbatim>\<open>downloadFile\<close>: the early return, the request, and how a
  redirect hands over to the next call.
\<close>

lemma tempPath_neq: "d @ ''.tmp'' \<noteq> d"
proof
  assume "d @ ''.tmp'' = d"
  then have "length (d @ ''.tmp'') = length d" by simp
  then show False by simp
qed

lemma downloadFile_cached:
  "d \<in> files w \<Longrightarrow> downloadFile e w url d = Some (Inr d, w)"
  by (subst downloadFile.simps) (simp add: checkFileExists_def)

lemma files_afterRequest: "files (afterRequest w url d) = insert (d @ ''.tmp'') (files w)"
  by (simp add: afterRequest_def createWriteStream_def)

lemma requests_afterRequest: "requests (afterRequest w url d) = requests w @ [url]"
  by (simp add: afterRequest_def)

lemma destination_afterRequest: "d \<in> files (afterRequest w url d) \<longleftrightarrow> d \<in> files w"
  using tempPath_neq [of d] by (auto simp: files_afterRequest)

lemma downloadFile_request:
  assumes "d \<notin> files w" and "mkdir_error e d = None"
  shows "downloadFile e w url d =
    (case net e (requests w) url of
       Thrown err \<Rightarrow> Some (Inl (InvalidRequest err), afterRequest w url d)
     | OpenFailed err \<Rightarrow> None
     | RequestError err \<Rightarrow> Some (onRequestError e (afterRequest w url d) (d @ ''.tmp'') err)
     | Response statusCode location content \<Rightarrow>
         if statusCode = 302 \<or> statusCode = 301 then downloadFile e (afterRequest w url d) location d
         else if statusCode \<noteq> 200 then Some (Inl (DownloadHTTPError statusCode), afterRequest w url d)
         else (case content of
                 Aborted err \<Rightarrow> Some (onRequestError e (afterRequest w url d) (d @ ''.tmp'') err)
               | Truncated \<Rightarrow> None
               | WriteFailed err \<Rightarrow> None
               | Complete \<Rightarrow>
                   (case rename e (afterRequest w url d) (d @ ''.tmp'') d of
                      Inl err \<Rightarrow> Some (Inl err, afterRequest w url d)
                    | Inr w3 \<Rightarrow> Some (Inr d, w3))))"
  using assms
  by (subst downloadFile.simps)
     (simp add: checkFileExists_def https_get_def afterRequest_def createWriteStream_def Let_def
           split: reply.splits body.splits sum.splits)

lemma onRequestError_eq:
  "onRequestError e w t err =
     (Inl (NetworkError err),
      if unlink_error e t = None \<and> t \<in> files w then w\<lparr>files := files w - {t}\<rparr> else w)"
  by (simp add: onRequestError_def unlink_def split: option.splits)

lemma followRedirects_destination:
  "followRedirects n e d w url = (w1, url1) \<Longrightarrow> d \<in> files w1 \<longleftrightarrow> d \<in> files w"
proof (induction n arbitrary: w url)
  case 0
  then show ?case by simp
next
  case (Suc n)
  then show ?case
    by (auto simp: destination_afterRequest split: reply.splits if_splits)
qed

lemma downloadFile_followRedirects:
  assumes "d \<notin> files w" and "mkdir_error e d = None"
    and "followRedirects n e d w url = (w1, url1)"
  shows "downloadFile e w url d = downloadFile e w1 url1 d"
  using assms
proof (induction n arbitrary: w url)
  case 0
  then show ?case by simp
next
  case (Suc n)
  show ?case
  proof (cases "net e (requests w) url")
    case (Thrown err)
    with Suc.prems show ?thesis by simp
  next
    case (OpenFailed err)
    with Suc.prems show ?thesis by simp
  next
    case (RequestError err)
    with Suc.prems show ?thesis by simp
  next
    case (Response s loc b)
    show ?thesis
    proof (cases "s = 302 \<or> s = 301")
      case True
      with Response Suc.prems have next_hop: "followRedirects n e d (afterRequest w url d) loc = (w1, url1)"
        by auto
      have "d \<notin> files (afterRequest w url d)"
        using Suc.prems(1) by (simp add: destination_afterRequest)
      then have "downloadFile e (afterRequest w url d) loc d = downloadFile e w1 url1 d"
        using Suc.IH [OF _ Suc.prems(2) next_hop] by simp
      moreover have "downloadFile e w url d = downloadFile e (afterRequest w url d) loc d"
        using Response True by (simp add: downloadFile_request [OF Suc.prems(1,2)])
      ultimately show ?thesis by simp
    next
      case False
      with Response Suc.prems show ?thesis by auto
    qed
  qed
qed

text \<open>
  What every call that returns has done to the disk: a success left a file at the
  destination (and, when the destination was absent before, no temporary file); a failure
  left no file at the destination.
\<close>

lemma downloadFile_post:
  assumes "downloadFile e w url d = Some y"
  shows "(\<forall>p. fst y = Inr p \<longrightarrow> p = d \<and> d \<in> files (snd y) \<and> (d \<notin> files w \<longrightarrow> d @ ''.tmp'' \<notin> files (snd y)))
       \<and> (\<forall>err. fst y = Inl err \<longrightarrow> d \<notin> files (snd y))"
  using assms
proof (induction rule: downloadFile.raw_induct [rotated 1, consumes 1])
  case (1 rec e w url d y)
  show ?case
  proof (cases "d \<in> files w")
    case True
    with 1(2) show ?thesis by (auto simp: checkFileExists_def)
  next
    case absent: False
    show ?thesis
    proof (cases "mkdir_error e d")
      case (Some err)
      with absent 1(2) show ?thesis by (auto simp: checkFileExists_def)
    next
      case None
      have absent': "d \<notin> files (afterRequest w url d)"
        using absent by (simp add: destination_afterRequest)
      show ?thesis
      proof (cases "net e (requests w) url")
        case (Thrown err)
        with absent None 1(2) absent' show ?thesis
          by (auto simp: checkFileExists_def https_get_def Let_def
                afterRequest_def createWriteStream_def)
      next
        case (OpenFailed err)
        with absent None 1(2) show ?thesis
          by (simp add: checkFileExists_def https_get_def Let_def createWriteStream_def)
      next
        case (RequestError err)
        with absent None 1(2) absent' show ?thesis
          by (auto simp: checkFileExists_def https_get_def Let_def onRequestError_eq
                afterRequest_def createWriteStream_def tempPath_neq split: if_splits)
      next
        case (Response s loc b)
        show ?thesis
        proof (cases "s = 302 \<or> s = 301")
          case True
          with Response absent None 1(2)
          have "rec e (afterRequest w url d) loc d = Some y"
            by (auto simp: checkFileExists_def https_get_def Let_def afterRequest_def createWriteStream_def)
          from 1(1) [OF this] absent' show ?thesis by blast
        next
          case False
          with Response absent None 1(2) absent' show ?thesis
            by (auto simp: checkFileExists_def https_get_def Let_def onRequestError_eq rename_def
                  afterRequest_def createWriteStream_def tempPath_neq
                  split: if_splits body.splits option.splits)
        qed
      qed
    qed
  qed
qed

text \<open>
  Nothing bounds the redirects: against a server that redirects a URL to itself the
  download never settles.
\<close>

lemma redirect_loop_settled:
  assumes "downloadFile e w url d = Some y"
  shows "e = loopEnv \<longrightarrow> d \<in> files w"
  using assms
proof (induction rule: downloadFile.raw_induct [rotated 1, consumes 1])
  case (1 rec e w url d y)
  show ?case
  proof (rule impI, rule ccontr)
    assume e: "e = loopEnv" and absent: "d \<notin> files w"
    from absent have "d \<notin> files (afterRequest w url d)"
      by (simp add: destination_afterRequest)
    moreover from 1(2) e absent have "rec e (afterRequest w url d) url d = Some y"
      by (simp add: checkFileExists_def loopEnv_def sampleEnv_def https_get_def Let_def
            afterRequest_def createWriteStream_def)
    ultimately show False
      using 1(1) e by blast
  qed
qed

lemma redirect_loop_never_settles:
  "d \<notin> files w \<Longrightarrow> downloadFile loopEnv w url d = None"
  using redirect_loop_settled [of loopEnv w url d] by (cases "downloadFile loopEnv w url d") auto

text \<open>The stream completes and the rename succeeds: the download returns the destination.\<close>

lemma stream_completion_renames:
  assumes "d \<notin> files w" and "mkdir_error e d = None"
    and "followRedirects n e d w url = (w1, url1)"
    and "net e (requests w1) url1 = Response 200 location Complete"
    and "rename_error e (d @ ''.tmp'') d = None"
  shows "\<exists>w'. downloadFile e w url d = Some (Inr d, w')
           \<and> files w' = insert d (files w1 - {d @ ''.tmp''})
           \<and> requests w' = requests w1 @ [url1]"
proof -
  have absent1: "d \<notin> files w1"
    using assms(1,3) by (simp add: followRedirects_destination)
  have "downloadFile e w url d = downloadFile e w1 url1 d"
    by (rule downloadFile_followRedirects [OF assms(1,2,3)])
  then show ?thesis
    using assms(4,5)
    by (simp add: downloadFile_request [OF absent1 assms(2)] rename_def files_afterRequest
          requests_afterRequest)
qed

text \<open>
  C3. When a file already exists at the destination, \<^verbatim>\<open>downloadFile\<close> returns the
  destination and leaves the world as it was: no request is added to the list of
  requests and no file is touched. So after a download that succeeded, a second call for
  the same destination, whatever its URL, returns at once without network access.
\<close>

theorem download_idempotent:
  "(d \<in> files w \<longrightarrow> downloadFile e w url d = Some (Inr d, w))
   \<and> (downloadFile e w url d = Some (Inr p, w1) \<longrightarrow> downloadFile e2 w1 url2 d = Some (Inr d, w1))"
proof (intro conjI impI)
  assume "d \<in> files w"
  then show "downloadFile e w url d = Some (Inr d, w)" by (rule downloadFile_cached)
next
  assume "downloadFile e w url d = Some (Inr p, w1)"
  from downloadFile_post [OF this] have "d \<in> files w1" by simp
  then show "downloadFile e2 w1 url2 d = Some (Inr d, w1)" by (rule downloadFile_cached)
qed

text \<open>The sample server, and a download through one redirect on it.\<close>

lemma sampleEnv_fields:
  "net sampleEnv = sampleNet" "mkdir_error sampleEnv p = None"
  "unlink_error sampleEnv p = None" "rename_error sampleEnv p q = None"
  by (simp_all add: sampleEnv_def)

lemma sample_download:
  "downloadFile sampleEnv emptyDisk ''https://example.org/moved'' ''/srv/cache/file.zip'' =
     Some (Inr ''/srv/cache/file.zip'', cachedDisk)"
  by (simp add: downloadFile_request destination_afterRequest sampleEnv_def sampleNet_def
        emptyDisk_def cachedDisk_def rename_def afterRequest_def createWriteStream_def)

lemma sample_redirect_moved:
  "followRedirects 1 sampleEnv ''/srv/cache/file.zip'' emptyDisk ''https://example.org/moved'' =
     (\<lparr>files = {''/srv/cache/file.zip.tmp''}, requests = [''https://example.org/moved'']\<rparr>,
      ''https://example.org/file'')"
  by (simp add: sampleEnv_def sampleNet_def emptyDisk_def afterRequest_def createWriteStream_def)

theorem download_idempotent_witness:
  "''/srv/cache/file.zip'' \<in> files cachedDisk
   \<and> downloadFile sampleEnv cachedDisk ''https://example.org/missing'' ''/srv/cache/file.zip'' =
       Some (Inr ''/srv/cache/file.zip'', cachedDisk)
   \<and> downloadFile sampleEnv emptyDisk ''https://example.org/moved'' ''/srv/cache/file.zip'' =
       Some (Inr ''/srv/cache/file.zip'', cachedDisk)
   \<and> downloadFile sampleEnv cachedDisk ''https://example.org/moved'' ''/srv/cache/file.zip'' =
       Some (Inr ''/srv/cache/file.zip'', cachedDisk)"
proof -
  have present: "''/srv/cache/file.zip'' \<in> files cachedDisk"
    by (simp add: cachedDisk_def)
  have hit: "downloadFile sampleEnv cachedDisk ''https://example.org/missing'' ''/srv/cache/file.zip'' =
      Some (Inr ''/srv/cache/file.zip'', cachedDisk)"
    using download_idempotent [of "''/srv/cache/file.zip''" cachedDisk sampleEnv
        "''https://example.org/missing''"] present
    by blast
  have again: "downloadFile sampleEnv cachedDisk ''https://example.org/moved'' ''/srv/cache/file.zip'' =
      Some (Inr ''/srv/cache/file.zip'', cachedDisk)"
    using download_idempotent [of "''/srv/cache/file.zip''" emptyDisk sampleEnv
        "''https://example.org/moved''" "''/srv/cache/file.zip''" cachedDisk sampleEnv
        "''https://example.org/moved''"] sample_download
    by blast
  show ?thesis
    by (rule conjI [OF present conjI [OF hit conjI [OF sample_download again]]])
qed

text \<open>
  C4. When the response to the request of a download, the first or one made after
  redirects, has a status code that is neither 200 nor 301 nor 302, \<^verbatim>\<open>downloadFile\<close>
  fails with the HTTP error that carries this status code, and no file exists at the
  destination afterwards.
\<close>

theorem http_error_rejects:
  assumes "d \<notin> files w" and "mkdir_error e d = None"
    and "followRedirects n e d w url = (w1, url1)"
    and "net e (requests w1) url1 = Response statusCode location content"
    and "statusCode \<noteq> 200" and "statusCode \<noteq> 301" and "statusCode \<noteq> 302"
  shows "downloadFile e w url d = Some (Inl (DownloadHTTPError statusCode), afterRequest w1 url1 d)
       \<and> d \<notin> files (afterRequest w1 url1 d)"
proof -
  have absent1: "d \<notin> files w1"
    using assms(1,3) by (simp add: followRedirects_destination)
  have "downloadFile e w url d = downloadFile e w1 url1 d"
    by (rule downloadFile_followRedirects [OF assms(1,2,3)])
  also have "\<dots> = Some (Inl (DownloadHTTPError statusCode), afterRequest w1 url1 d)"
    using assms(4-7) by (simp add: downloadFile_request [OF absent1 assms(2)])
  finally show ?thesis
    using absent1 by (simp add: destination_afterRequest)
qed

lemma sample_redirect_gone:
  "followRedirects 1 sampleEnv ''/srv/cache/file.zip'' emptyDisk ''https://example.org/gone'' =
     (\<lparr>files = {''/srv/cache/file.zip.tmp''}, requests = [''https://example.org/gone'']\<rparr>,
      ''https://example.org/missing'')"
  by (simp add: sampleEnv_def sampleNet_def emptyDisk_def afterRequest_def createWriteStream_def)

theorem http_error_rejects_witness:
  "downloadFile sampleEnv emptyDisk ''https://example.org/gone'' ''/srv/cache/file.zip'' =
     Some (Inl (DownloadHTTPError 404),
       \<lparr>files = {''/srv/cache/file.zip.tmp''},
        requests = [''https://example.org/gone'', ''https://example.org/missing'']\<rparr>)
   \<and> ''/srv/cache/file.zip'' \<notin> {''/srv/cache/file.zip.tmp''}"
  using http_error_rejects [OF _ _ sample_redirect_gone, of 404 "[]" Complete]
  by (simp add: sampleEnv_def sampleNet_def emptyDisk_def afterRequest_def createWriteStream_def)

text \<open>
  C10. When the download fails on a status code that is neither 200 nor 301 nor 302, the
  world it leaves is the world right after the write stream was opened and the request
  issued: the temporary file, created before the request, is still on disk and nothing
  has been deleted. The network-error path differs: there the temporary file is gone
  when the deletion succeeds.
\<close>

theorem http_error_keeps_temp_file:
  assumes "d \<notin> files w" and "mkdir_error e d = None"
    and "followRedirects n e d w url = (w1, url1)"
  shows "(net e (requests w1) url1 = Response statusCode location content
            \<and> statusCode \<noteq> 200 \<and> statusCode \<noteq> 301 \<and> statusCode \<noteq> 302 \<longrightarrow>
          downloadFile e w url d = Some (Inl (DownloadHTTPError statusCode), afterRequest w1 url1 d)
          \<and> d @ ''.tmp'' \<in> files (afterRequest w1 url1 d))
       \<and> (net e (requests w1) url1 = RequestError err \<and> unlink_error e (d @ ''.tmp'') = None \<longrightarrow>
          (\<exists>w'. downloadFile e w url d = Some (Inl (NetworkError err), w')
             \<and> d @ ''.tmp'' \<notin> files w'))"
proof -
  have absent1: "d \<notin> files w1"
    using assms(1,3) by (simp add: followRedirects_destination)
  have hop: "downloadFile e w url d = downloadFile e w1 url1 d"
    by (rule downloadFile_followRedirects [OF assms(1,2,3)])
  show ?thesis
    by (auto simp: hop downloadFile_request [OF absent1 assms(2)] files_afterRequest
          onRequestError_eq)
qed

theorem http_error_keeps_temp_file_witness:
  "(downloadFile sampleEnv emptyDisk ''https://example.org/gone'' ''/srv/cache/file.zip'' =
      Some (Inl (DownloadHTTPError 404),
        \<lparr>files = {''/srv/cache/file.zip.tmp''},
         requests = [''https://example.org/gone'', ''https://example.org/missing'']\<rparr>)
    \<and> ''/srv/cache/file.zip.tmp'' \<in> {''/srv/cache/file.zip.tmp''})
   \<and> (\<exists>w'. downloadFile sampleEnv emptyDisk ''https://example.org/down'' ''/srv/cache/file.zip'' =
            Some (Inl (NetworkError ''ECONNREFUSED''), w')
          \<and> ''/srv/cache/file.zip.tmp'' \<notin> files w')"
proof -
  have start: "followRedirects 0 sampleEnv ''/srv/cache/file.zip'' emptyDisk ''https://example.org/down'' =
      (emptyDisk, ''https://example.org/down'')"
    by simp
  have absent: "''/srv/cache/file.zip'' \<notin> files emptyDisk"
    and mkdir: "mkdir_error sampleEnv ''/srv/cache/file.zip'' = None"
    by (simp_all add: emptyDisk_def sampleEnv_def)
  from http_error_keeps_temp_file [OF absent mkdir sample_redirect_gone, of 404 "[]" Complete]
  have first: "downloadFile sampleEnv emptyDisk ''https://example.org/gone'' ''/srv/cache/file.zip'' =
      Some (Inl (DownloadHTTPError 404),
        \<lparr>files = {''/srv/cache/file.zip.tmp''},
         requests = [''https://example.org/gone'', ''https://example.org/missing'']\<rparr>)
    \<and> ''/srv/cache/file.zip.tmp'' \<in> {''/srv/cache/file.zip.tmp''}"
    by (simp add: sampleEnv_def sampleNet_def afterRequest_def createWriteStream_def)
  from http_error_keeps_temp_file [OF absent mkdir start, of _ _ _ "''ECONNREFUSED''"]
  have second: "\<exists>w'. downloadFile sampleEnv emptyDisk ''https://example.org/down'' ''/srv/cache/file.zip'' =
            Some (Inl (NetworkError ''ECONNREFUSED''), w')
          \<and> ''/srv/cache/file.zip.tmp'' \<notin> files w'"
    by (simp add: sampleEnv_def sampleNet_def emptyDisk_def)
  from first second show ?thesis by (rule conjI)
qed


text \<open>
  The network errors that the request object reports. When the request of a download,
  the first or one made after redirects, emits \<^verbatim>\<open>'error'\<close>, before any response or
  while the body of a 200 response streams, \<^verbatim>\<open>downloadFile\<close> fails with that error,
  no file exists at the destination afterwards, and the temporary file has been deleted;
  when the deletion fails the failure is swallowed, the same error is returned and the
  temporary file stays.
\<close>

lemma request_error_cleans_up:
  assumes "d \<notin> files w" and "mkdir_error e d = None"
    and "followRedirects n e d w url = (w1, url1)"
    and "net e (requests w1) url1 = RequestError err
         \<or> net e (requests w1) url1 = Response 200 location (Aborted err)"
  shows "\<exists>w'. downloadFile e w url d = Some (Inl (NetworkError err), w')
           \<and> d \<notin> files w'
           \<and> files w' = (if unlink_error e (d @ ''.tmp'') = None then files w1 - {d @ ''.tmp''}
                         else insert (d @ ''.tmp'') (files w1))"
proof -
  have absent1: "d \<notin> files w1"
    using assms(1,3) by (simp add: followRedirects_destination)
  have hop: "downloadFile e w url d = downloadFile e w1 url1 d"
    by (rule downloadFile_followRedirects [OF assms(1,2,3)])
  have "downloadFile e w1 url1 d = Some (onRequestError e (afterRequest w1 url1 d) (d @ ''.tmp'') err)"
    using assms(4) by (auto simp: downloadFile_request [OF absent1 assms(2)])
  with hop absent1 show ?thesis
    by (auto simp: onRequestError_eq files_afterRequest tempPath_neq)
qed

lemma request_error_cleans_up_example:
  "(\<exists>w'. downloadFile sampleEnv emptyDisk ''https://example.org/cut'' ''/srv/cache/file.zip'' =
            Some (Inl (NetworkError ''ECONNRESET''), w')
         \<and> ''/srv/cache/file.zip'' \<notin> files w' \<and> files w' = {})
   \<and> (\<exists>w'. downloadFile stubbornEnv emptyDisk ''https://example.org/down'' ''/srv/cache/file.zip'' =
            Some (Inl (NetworkError ''ECONNREFUSED''), w')
         \<and> ''/srv/cache/file.zip'' \<notin> files w' \<and> files w' = {''/srv/cache/file.zip.tmp''})"
proof -
  have absent: "''/srv/cache/file.zip'' \<notin> files emptyDisk"
    by (simp add: emptyDisk_def)
  have mkdir: "mkdir_error sampleEnv ''/srv/cache/file.zip'' = None"
      "mkdir_error stubbornEnv ''/srv/cache/file.zip'' = None"
    by (simp_all add: stubbornEnv_def sampleEnv_def)
  have start: "followRedirects 0 sampleEnv ''/srv/cache/file.zip'' emptyDisk ''https://example.org/cut'' =
      (emptyDisk, ''https://example.org/cut'')"
    "followRedirects 0 stubbornEnv ''/srv/cache/file.zip'' emptyDisk ''https://example.org/down'' =
      (emptyDisk, ''https://example.org/down'')"
    by simp_all
  have cut: "net sampleEnv (requests emptyDisk) ''https://example.org/cut'' = RequestError ''ECONNRESET''
      \<or> net sampleEnv (requests emptyDisk) ''https://example.org/cut'' =
          Response 200 [] (Aborted ''ECONNRESET'')"
    by (simp add: sampleEnv_def sampleNet_def)
  have down: "net stubbornEnv (requests emptyDisk) ''https://example.org/down'' = RequestError ''ECONNREFUSED''
      \<or> net stubbornEnv (requests emptyDisk) ''https://example.org/down'' =
          Response 200 [] (Aborted ''ECONNREFUSED'')"
    by (simp add: stubbornEnv_def sampleEnv_def sampleNet_def)
  from request_error_cleans_up [OF absent mkdir(1) start(1) cut]
  have first: "\<exists>w'. downloadFile sampleEnv emptyDisk ''https://example.org/cut'' ''/srv/cache/file.zip'' =
            Some (Inl (NetworkError ''ECONNRESET''), w')
         \<and> ''/srv/cache/file.zip'' \<notin> files w' \<and> files w' = {}"
    by (simp add: sampleEnv_def emptyDisk_def)
  from request_error_cleans_up [OF absent mkdir(2) start(2) down]
  have second: "\<exists>w'. downloadFile stubbornEnv emptyDisk ''https://example.org/down'' ''/srv/cache/file.zip'' =
            Some (Inl (NetworkError ''ECONNREFUSED''), w')
         \<and> ''/srv/cache/file.zip'' \<notin> files w' \<and> files w' = {''/srv/cache/file.zip.tmp''}"
    by (simp add: stubbornEnv_def sampleEnv_def emptyDisk_def)
  from first second show ?thesis by (rule conjI)
qed

text \<open>
  C5. Every network error before the download is complete, one in the middle of the
  stream included, is meant to delete the temporary file and to reach the caller. It does
  when the request reports the error (\<open>request_error_cleans_up\<close>). It does not when the
  connection is closed in the middle of the body: no callback of the script runs, the
  promise never settles, so nothing reaches the caller and nothing is deleted.
\<close>

theorem truncated_body_never_settles:
  "downloadFile cuttingEnv emptyDisk ''https://example.org/file'' ''/srv/cache/file.zip'' = None"
proof -
  have absent: "''/srv/cache/file.zip'' \<notin> files emptyDisk"
    by (simp add: emptyDisk_def)
  have mkdir: "mkdir_error cuttingEnv ''/srv/cache/file.zip'' = None"
    by (simp add: cuttingEnv_def sampleEnv_def)
  show ?thesis
    by (subst downloadFile_request [OF absent mkdir]) (simp add: cuttingEnv_def)
qed

text \<open>
  C6. Every download that succeeds, starting without a file at the destination, returns
  exactly the requested destination path, leaves a file there, and leaves no temporary
  file. And when the body of a 200 response, to the first request or to one made after
  redirects, streams to its end and the rename succeeds, the download does succeed; what
  it changes on disk is that the temporary file has become the destination.
\<close>

theorem successful_download_renames:
  assumes "d \<notin> files w"
  shows "(downloadFile e w url d = Some (Inr p, w') \<longrightarrow>
            p = d \<and> d \<in> files w' \<and> d @ ''.tmp'' \<notin> files w')
       \<and> (mkdir_error e d = None \<and> followRedirects n e d w url = (w1, url1)
            \<and> net e (requests w1) url1 = Response 200 location Complete
            \<and> rename_error e (d @ ''.tmp'') d = None \<longrightarrow>
          (\<exists>w2. downloadFile e w url d = Some (Inr d, w2)
             \<and> files w2 = insert d (files w1 - {d @ ''.tmp''})))"
proof (rule conjI)
  show "downloadFile e w url d = Some (Inr p, w') \<longrightarrow>
          p = d \<and> d \<in> files w' \<and> d @ ''.tmp'' \<notin> files w'"
  proof (rule impI)
    assume "downloadFile e w url d = Some (Inr p, w')"
    from downloadFile_post [OF this] assms
    show "p = d \<and> d \<in> files w' \<and> d @ ''.tmp'' \<notin> files w'" by simp
  qed
  show "mkdir_error e d = None \<and> followRedirects n e d w url = (w1, url1)
          \<and> net e (requests w1) url1 = Response 200 location Complete
          \<and> rename_error e (d @ ''.tmp'') d = None \<longrightarrow>
        (\<exists>w2. downloadFile e w url d = Some (Inr d, w2)
           \<and> files w2 = insert d (files w1 - {d @ ''.tmp''}))"
    using stream_completion_renames [OF assms, of e n url w1 url1 location] by blast
qed

theorem successful_download_renames_witness:
  "''/srv/cache/file.zip'' \<notin> files emptyDisk
   \<and> downloadFile sampleEnv emptyDisk ''https://example.org/moved'' ''/srv/cache/file.zip'' =
       Some (Inr ''/srv/cache/file.zip'', cachedDisk)
   \<and> (''/srv/cache/file.zip'' = ''/srv/cache/file.zip''
      \<and> ''/srv/cache/file.zip'' \<in> files cachedDisk
      \<and> ''/srv/cache/file.zip'' @ ''.tmp'' \<notin> files cachedDisk)
   \<and> (\<exists>w2. downloadFile sampleEnv emptyDisk ''https://example.org/moved'' ''/srv/cache/file.zip'' =
            Some (Inr ''/srv/cache/file.zip'', w2)
          \<and> files w2 = {''/srv/cache/file.zip''})"
proof -
  have absent: "''/srv/cache/file.zip'' \<notin> files emptyDisk"
    by (simp add: emptyDisk_def)
  note both = successful_download_renames [OF absent, of sampleEnv "''https://example.org/moved''"
      "''/srv/cache/file.zip''" cachedDisk 1
      "\<lparr>files = {''/srv/cache/file.zip.tmp''}, requests = [''https://example.org/moved'']\<rparr>"
      "''https://example.org/file''" "[]"]
  from both sample_download have post:
    "''/srv/cache/file.zip'' = ''/srv/cache/file.zip''
      \<and> ''/srv/cache/file.zip'' \<in> files cachedDisk
      \<and> ''/srv/cache/file.zip'' @ ''.tmp'' \<notin> files cachedDisk"
    by blast
  have mkdir: "mkdir_error sampleEnv ''/srv/cache/file.zip'' = None"
    and reply: "net sampleEnv
        (requests \<lparr>files = {''/srv/cache/file.zip.tmp''}, requests = [''https://example.org/moved'']\<rparr>)
        ''https://example.org/file'' = Response 200 [] Complete"
    and rename: "rename_error sampleEnv (''/srv/cache/file.zip'' @ ''.tmp'') ''/srv/cache/file.zip'' = None"
    by (simp_all add: sampleEnv_fields sampleNet_def)
  from both mkdir sample_redirect_moved reply rename
  have "\<exists>w2. downloadFile sampleEnv emptyDisk ''https://example.org/moved'' ''/srv/cache/file.zip'' =
            Some (Inr ''/srv/cache/file.zip'', w2)
          \<and> files w2 = insert ''/srv/cache/file.zip''
              (files \<lparr>files = {''/srv/cache/file.zip.tmp''}, requests = [''https://example.org/moved'']\<rparr>
                 - {''/srv/cache/file.zip'' @ ''.tmp''})"
    by blast
  then have forward:
    "\<exists>w2. downloadFile sampleEnv emptyDisk ''https://example.org/moved'' ''/srv/cache/file.zip'' =
            Some (Inr ''/srv/cache/file.zip'', w2)
          \<and> files w2 = {''/srv/cache/file.zip''}"
    by simp
  show ?thesis
    by (rule conjI [OF absent conjI [OF sample_download conjI [OF post forward]]])
qed

section \<open>Properties of the orchestrator\<close>

text \<open>
  The two loops run their entries one after the other, each from the world the one
  before has left.
\<close>

lemma installEnv_append:
  "installEnv e root platform arch envName w (xs @ ys) =
     (case installEnv e root platform arch envName w xs of
        None \<Rightarrow> None
      | Some (rs, w1) \<Rightarrow>
          (case installEnv e root platform arch envName w1 ys of
             None \<Rightarrow> None
           | Some (rs', w2) \<Rightarrow> Some (rs @ rs', w2)))"
  by (induction xs arbitrary: w) (auto split: option.splits)

lemma installAllSoftware_append:
  "installAllSoftware e root platform arch w (c1 @ c2) =
     (case installAllSoftware e root platform arch w c1 of
        None \<Rightarrow> None
      | Some (rs, w1) \<Rightarrow>
          (case installAllSoftware e root platform arch w1 c2 of
             None \<Rightarrow> None
           | Some (rs', w2) \<Rightarrow> Some (rs @ rs', w2)))"
  by (induction c1 arbitrary: w) (auto split: option.splits)

text \<open>
  The errors that reach the \<^verbatim>\<open>catch\<close> of the inner loop. Take any configuration and
  any job in it: the environments \<open>envs1\<close> and the entries \<open>entries1\<close> come before
  the job, the entries \<open>entries2\<close> of the same environment and the environments
  \<open>envs2\<close> come after it. When \<^verbatim>\<open>generateDownloadLink\<close> throws or
  \<^verbatim>\<open>downloadFile\<close> rejects in that job, the error is caught: the run is the run of
  the jobs before, then the report of that error, then the run of all the jobs after it,
  in the same and in the later environments, started from the world the failed job has
  left.
\<close>

lemma raised_error_does_not_stop_the_run:
  assumes before:
      "installAllSoftware e root platform arch w (envs1 @ [(envName, entries1)]) = Some (rs1, w1)"
    and failed:
      "installJob e root platform arch envName w1 entry = Some ((component, version, Inl err), w2)"
  shows "installAllSoftware e root platform arch w
           (envs1 @ (envName, entries1 @ entry # entries2) # envs2) =
         (case installAllSoftware e root platform arch w2 ((envName, entries2) # envs2) of
            None \<Rightarrow> None
          | Some (rs2, w3) \<Rightarrow> Some (rs1 @ (component, version, Inl err) # rs2, w3))"
proof -
  from before obtain rsA wA rsB where
    first: "installAllSoftware e root platform arch w envs1 = Some (rsA, wA)"
    and here: "installEnv e root platform arch envName wA entries1 = Some (rsB, w1)"
    and rs1: "rs1 = rsA @ rsB"
    by (auto simp: installAllSoftware_append split: option.splits)
  show ?thesis
    using first here rs1 failed
    by (simp add: installAllSoftware_append [of _ _ _ _ _ envs1] installEnv_append
          split: option.splits)
qed

lemma raised_error_does_not_stop_the_run_example:
  "installAllSoftware sampleEnv ''/srv/backend'' ''linux'' ''amd64'' emptyDisk
       ([] @ [(''prod'', [(''nginx-version'', ''1.25'')])]) =
     Some ([(''nginx'', ''1.25'', Inl (UnsupportedSoftware ''nginx''))], emptyDisk)
   \<and> installJob sampleEnv ''/srv/backend'' ''linux'' ''amd64'' ''prod'' emptyDisk
       (''jdk-version'', ''17'') =
     Some ((''jdk'', ''17'', Inl (DownloadHTTPError 404)), afterJdkJob)
   \<and> installAllSoftware sampleEnv ''/srv/backend'' ''linux'' ''amd64'' emptyDisk
       ([] @ (''prod'', [(''nginx-version'', ''1.25'')] @ (''jdk-version'', ''17'') # [])
           # [(''test'', [(''redis-version'', ''7'')])]) =
     Some ([(''nginx'', ''1.25'', Inl (UnsupportedSoftware ''nginx'')),
            (''jdk'', ''17'', Inl (DownloadHTTPError 404)),
            (''redis'', ''7'', Inr ''/srv/backend/amd64/test/bin/redis-7-linux-amd64.tar.gz'')],
           afterSampleRun)"
proof -
  have before: "installAllSoftware sampleEnv ''/srv/backend'' ''linux'' ''amd64'' emptyDisk
       ([] @ [(''prod'', [(''nginx-version'', ''1.25'')])]) =
     Some ([(''nginx'', ''1.25'', Inl (UnsupportedSoftware ''nginx''))], emptyDisk)"
    by (simp add: installJob_def jobTarget_def stripVersionSuffix_def generateDownloadLink_def
          lookupPrefix_def downloadPrefixes_def objectPrototype_def Let_def)
  have failed: "installJob sampleEnv ''/srv/backend'' ''linux'' ''amd64'' ''prod'' emptyDisk
       (''jdk-version'', ''17'') =
     Some ((''jdk'', ''17'', Inl (DownloadHTTPError 404)), afterJdkJob)"
    by (simp add: installJob_def jobTarget_def stripVersionSuffix_def generateDownloadLink_def
          lookupPrefix_def downloadPrefixes_def path_join_def path_normalize_def path_basename_def
          downloadFile_request sampleEnv_fields sampleNet_def emptyDisk_def afterJdkJob_def
          afterRequest_def createWriteStream_def Let_def)
  have rest: "installAllSoftware sampleEnv ''/srv/backend'' ''linux'' ''amd64'' afterJdkJob
       [(''prod'', []), (''test'', [(''redis-version'', ''7'')])] =
     Some ([(''redis'', ''7'', Inr ''/srv/backend/amd64/test/bin/redis-7-linux-amd64.tar.gz'')],
           afterSampleRun)"
    by (simp add: installJob_def jobTarget_def stripVersionSuffix_def generateDownloadLink_def
          lookupPrefix_def downloadPrefixes_def path_join_def path_normalize_def path_basename_def
          downloadFile_request sampleEnv_fields sampleNet_def afterJdkJob_def afterSampleRun_def
          afterRequest_def rename_def createWriteStream_def insert_commute Let_def)
  from raised_error_does_not_stop_the_run [OF before failed,
      of "[]" "[(''test'', [(''redis-version'', ''7'')])]"]
  have run: "installAllSoftware sampleEnv ''/srv/backend'' ''linux'' ''amd64'' emptyDisk
       ([] @ (''prod'', [(''nginx-version'', ''1.25'')] @ (''jdk-version'', ''17'') # [])
           # [(''test'', [(''redis-version'', ''7'')])]) =
     Some ([(''nginx'', ''1.25'', Inl (UnsupportedSoftware ''nginx'')),
            (''jdk'', ''17'', Inl (DownloadHTTPError 404)),
            (''redis'', ''7'', Inr ''/srv/backend/amd64/test/bin/redis-7-linux-amd64.tar.gz'')],
           afterSampleRun)"
    by (simp only: rest option.case prod.case append.simps)
  show ?thesis
    by (rule conjI [OF before conjI [OF failed run]])
qed

text \<open>
  So a run in which every download settles reports one outcome for every entry of every
  environment, in order, whatever the outcomes are.
\<close>

lemma installJob_settles:
  assumes "\<forall>w url d. downloadFile e w url d \<noteq> None"
  shows "\<exists>outcome w'. installJob e root platform arch envName w entry =
           Some ((stripVersionSuffix (fst entry), snd entry, outcome), w')"
proof (cases "jobTarget root platform arch envName (stripVersionSuffix (fst entry)) (snd entry)")
  case (Inl err)
  then show ?thesis by (simp add: installJob_def)
next
  case (Inr target)
  from assms obtain y where "downloadFile e w (fst target) (snd target) = Some y"
    by blast
  with Inr show ?thesis
    by (cases y) (simp add: installJob_def)
qed

lemma installEnv_settles:
  assumes "\<forall>w url d. downloadFile e w url d \<noteq> None"
  shows "\<exists>reports w'. installEnv e root platform arch envName w entries = Some (reports, w')
           \<and> map (\<lambda>r. (fst r, fst (snd r))) reports =
               map (\<lambda>entry. (stripVersionSuffix (fst entry), snd entry)) entries"
proof (induction entries arbitrary: w)
  case Nil
  show ?case by simp
next
  case (Cons entry entries)
  from installJob_settles [OF assms] obtain outcome w1 where
    job: "installJob e root platform arch envName w entry =
            Some ((stripVersionSuffix (fst entry), snd entry, outcome), w1)"
    by blast
  from Cons.IH [of w1] obtain reports w2 where
    rest: "installEnv e root platform arch envName w1 entries = Some (reports, w2)"
      "map (\<lambda>r. (fst r, fst (snd r))) reports =
         map (\<lambda>entry. (stripVersionSuffix (fst entry), snd entry)) entries"
    by blast
  show ?case
    by (simp add: job rest)
qed

lemma run_reports_every_job:
  assumes "\<forall>w url d. downloadFile e w url d \<noteq> None"
  shows "\<exists>reports w'. installAllSoftware e root platform arch w config = Some (reports, w')
           \<and> map (\<lambda>r. (fst r, fst (snd r))) reports = jobsOf config"
proof (induction config arbitrary: w)
  case Nil
  show ?case by (simp add: jobsOf_def)
next
  case (Cons environment config)
  obtain envName envConfig where environment: "environment = (envName, envConfig)"
    by (cases environment)
  from installEnv_settles [OF assms] obtain reports w1 where
    here: "installEnv e root platform arch envName w envConfig = Some (reports, w1)"
      "map (\<lambda>r. (fst r, fst (snd r))) reports =
         map (\<lambda>entry. (stripVersionSuffix (fst entry), snd entry)) envConfig"
    by blast
  from Cons.IH [of w1] obtain reports' w2 where
    rest: "installAllSoftware e root platform arch w1 config = Some (reports', w2)"
      "map (\<lambda>r. (fst r, fst (snd r))) reports' = jobsOf config"
    by blast
  show ?case
    using here rest by (simp add: environment jobsOf_def)
qed

text \<open>Every download on the sample server settles; the run of the sample configuration.\<close>

lemma sampleEnv_settles: "\<forall>w url d. downloadFile sampleEnv w url d \<noteq> None"
proof (intro allI)
  fix w url d
  show "downloadFile sampleEnv w url d \<noteq> None"
  proof (cases "d \<in> files w")
    case True
    then show ?thesis by (simp add: downloadFile_cached)
  next
    case False
    have mkdir: "mkdir_error sampleEnv d = None" by (simp add: sampleEnv_def)
    have absent': "\<And>u. d \<notin> files (afterRequest w u d)"
      using False by (simp add: destination_afterRequest)
    show ?thesis
      by (simp add: downloadFile_request [OF False mkdir] downloadFile_request [OF absent' mkdir]
            sampleEnv_fields sampleNet_def onRequestError_eq split: sum.splits)
  qed
qed

lemma sample_run:
  "installAllSoftware sampleEnv ''/srv/backend'' ''linux'' ''amd64'' emptyDisk sampleConfig =
     Some ([(''nginx'', ''1.25'', Inl (UnsupportedSoftware ''nginx'')),
            (''jdk'', ''17'', Inl (DownloadHTTPError 404)),
            (''redis'', ''7'', Inr ''/srv/backend/amd64/test/bin/redis-7-linux-amd64.tar.gz'')],
           afterSampleRun)"
  by (simp add: sampleConfig_def installJob_def jobTarget_def stripVersionSuffix_def
    generateDownloadLink_def lookupPrefix_def downloadPrefixes_def objectPrototype_def
    path_join_def path_normalize_def path_basename_def
    downloadFile_request destination_afterRequest sampleEnv_fields sampleNet_def emptyDisk_def
    afterSampleRun_def rename_def afterRequest_def createWriteStream_def insert_commute Let_def)

lemma cutJdkEnv_fields:
  "mkdir_error cutJdkEnv p = None" "rename_error cutJdkEnv p q = None"
  "mkdir_error readOnlyEnv p = None"
  by (simp_all add: cutJdkEnv_def readOnlyEnv_def sampleEnv_def)

text \<open>
  C9. An error of resolution or of download in one job is meant to be caught and to leave
  the jobs after it to be attempted. It is when the error is thrown or the promise
  rejected (\<open>raised_error_does_not_stop_the_run\<close>). It is not when the download fails
  without rejecting. In the sample configuration the jdk job comes before the redis job of
  the next environment, and the redis job alone succeeds; but when the connection is cut
  in the middle of the jdk archive, or when the temporary file of the jdk archive cannot
  be opened, the run never gets past the jdk job: the promise it awaits never settles, or
  the uncaught \<^verbatim>\<open>'error'\<close> event of the write stream ends the process, and the redis
  job is never attempted.
\<close>

theorem unraised_download_failure_stops_the_run:
  "installAllSoftware cutJdkEnv ''/srv/backend'' ''linux'' ''amd64'' emptyDisk sampleConfig = None
   \<and> installAllSoftware readOnlyEnv ''/srv/backend'' ''linux'' ''amd64'' emptyDisk sampleConfig = None
   \<and> installAllSoftware cutJdkEnv ''/srv/backend'' ''linux'' ''amd64'' emptyDisk
         [(''test'', [(''redis-version'', ''7'')])] =
       Some ([(''redis'', ''7'', Inr ''/srv/backend/amd64/test/bin/redis-7-linux-amd64.tar.gz'')],
         \<lparr>files = {''/srv/backend/amd64/test/bin/redis-7-linux-amd64.tar.gz''},
          requests =
            [''https://github.com/shenxinli/redis-release/releases/download/v7/redis-7-linux-amd64.tar.gz'']\<rparr>)"
proof -
  have absent: "''/srv/backend/amd64/prod/bin/openjdk-17-linux-amd64.tar.gz'' \<notin> files emptyDisk"
    "''/srv/backend/amd64/test/bin/redis-7-linux-amd64.tar.gz'' \<notin> files emptyDisk"
    by (simp_all add: emptyDisk_def)
  have cut: "downloadFile cutJdkEnv emptyDisk
      ''https://github.com/shenxinli/java-release/releases/download/v17/openjdk-17-linux-amd64.tar.gz''
      ''/srv/backend/amd64/prod/bin/openjdk-17-linux-amd64.tar.gz'' = None"
    by (subst downloadFile_request [OF absent(1) cutJdkEnv_fields(1)]) (simp add: cutJdkEnv_def)
  have denied: "downloadFile readOnlyEnv emptyDisk
      ''https://github.com/shenxinli/java-release/releases/download/v17/openjdk-17-linux-amd64.tar.gz''
      ''/srv/backend/amd64/prod/bin/openjdk-17-linux-amd64.tar.gz'' = None"
    by (subst downloadFile_request [OF absent(1) cutJdkEnv_fields(3)]) (simp add: readOnlyEnv_def)
  have redis: "downloadFile cutJdkEnv emptyDisk
      ''https://github.com/shenxinli/redis-release/releases/download/v7/redis-7-linux-amd64.tar.gz''
      ''/srv/backend/amd64/test/bin/redis-7-linux-amd64.tar.gz'' =
      Some (Inr ''/srv/backend/amd64/test/bin/redis-7-linux-amd64.tar.gz'',
         \<lparr>files = {''/srv/backend/amd64/test/bin/redis-7-linux-amd64.tar.gz''},
          requests =
            [''https://github.com/shenxinli/redis-release/releases/download/v7/redis-7-linux-amd64.tar.gz'']\<rparr>)"
    by (subst downloadFile_request [OF absent(2) cutJdkEnv_fields(1)])
       (simp add: cutJdkEnv_def sampleEnv_def sampleNet_def rename_def afterRequest_def
          createWriteStream_def emptyDisk_def)
  have jobs: "jobTarget ''/srv/backend'' ''linux'' ''amd64'' ''prod'' ''nginx'' ''1.25'' =
        Inl (UnsupportedSoftware ''nginx'')"
      "jobTarget ''/srv/backend'' ''linux'' ''amd64'' ''prod'' ''jdk'' ''17'' =
        Inr (''https://github.com/shenxinli/java-release/releases/download/v17/openjdk-17-linux-amd64.tar.gz'',
             ''/srv/backend/amd64/prod/bin/openjdk-17-linux-amd64.tar.gz'')"
      "jobTarget ''/srv/backend'' ''linux'' ''amd64'' ''test'' ''redis'' ''7'' =
        Inr (''https://github.com/shenxinli/redis-release/releases/download/v7/redis-7-linux-amd64.tar.gz'',
             ''/srv/backend/amd64/test/bin/redis-7-linux-amd64.tar.gz'')"
    by (simp_all add: jobTarget_def generateDownloadLink_def lookupPrefix_def downloadPrefixes_def
          objectPrototype_def path_join_def path_normalize_def path_basename_def)
  show ?thesis
    by (simp add: sampleConfig_def installJob_def stripVersionSuffix_def jobs cut denied redis Let_def)
qed

text \<open>
  C7. For the configuration with the one environment prod and the one entry jdk-version
  17, on linux and amd64: the resolver produces the URL
  \<^verbatim>\<open>https://github.com/shenxinli/java-release/releases/download/v17/openjdk-17-linux-amd64.tar.gz\<close>,
  the destination is \<^verbatim>\<open><root>/amd64/prod/bin/openjdk-17-linux-amd64.tar.gz\<close>, and the
  run is the download of that URL to that file, reported for jdk 17.
\<close>

theorem jdk17_end_to_end:
  assumes "normalizedAbsolute root"
  shows "generateDownloadLink (stripVersionSuffix ''jdk-version'') ''17'' ''linux'' ''amd64'' =
           Inr ''https://github.com/shenxinli/java-release/releases/download/v17/openjdk-17-linux-amd64.tar.gz''
       \<and> jobTarget root ''linux'' ''amd64'' ''prod'' (stripVersionSuffix ''jdk-version'') ''17'' =
           Inr (''https://github.com/shenxinli/java-release/releases/download/v17/openjdk-17-linux-amd64.tar.gz'',
                root @ ''/amd64/prod/bin/openjdk-17-linux-amd64.tar.gz'')
       \<and> installAllSoftware e root ''linux'' ''amd64'' w [(''prod'', [(''jdk-version'', ''17'')])] =
           (case downloadFile e w
                   ''https://github.com/shenxinli/java-release/releases/download/v17/openjdk-17-linux-amd64.tar.gz''
                   (root @ ''/amd64/prod/bin/openjdk-17-linux-amd64.tar.gz'') of
              None \<Rightarrow> None
            | Some (outcome, w') \<Rightarrow> Some ([(''jdk'', ''17'', outcome)], w'))"
proof -
  have key: "stripVersionSuffix ''jdk-version'' = ''jdk''"
    by (simp add: stripVersionSuffix_def)
  have url: "generateDownloadLink ''jdk'' ''17'' ''linux'' ''amd64'' =
     Inr ''https://github.com/shenxinli/java-release/releases/download/v17/openjdk-17-linux-amd64.tar.gz''"
    by (simp add: generateDownloadLink_def lookupPrefix_def downloadPrefixes_def)
  have base: "path_basename
      ''https://github.com/shenxinli/java-release/releases/download/v17/openjdk-17-linux-amd64.tar.gz''
      = ''openjdk-17-linux-amd64.tar.gz''"
    by (simp add: path_basename_def)
  have segments: "plainSegment ''amd64''" "plainSegment ''prod''"
      "plainSegment ''openjdk-17-linux-amd64.tar.gz''"
    by (simp_all add: plainSegment_def)
  have target: "jobTarget root ''linux'' ''amd64'' ''prod'' ''jdk'' ''17'' =
      Inr (''https://github.com/shenxinli/java-release/releases/download/v17/openjdk-17-linux-amd64.tar.gz'',
           root @ ''/amd64/prod/bin/openjdk-17-linux-amd64.tar.gz'')"
    using jobTarget_destination [OF assms segments(1,2) url] segments(3) by (simp add: base)
  show ?thesis
    by (simp add: key url target installJob_def split: option.splits)
qed

theorem jdk17_end_to_end_witness:
  "normalizedAbsolute ''/srv/backend''
   \<and> jobTarget ''/srv/backend'' ''linux'' ''amd64'' ''prod'' (stripVersionSuffix ''jdk-version'') ''17'' =
       Inr (''https://github.com/shenxinli/java-release/releases/download/v17/openjdk-17-linux-amd64.tar.gz'',
            ''/srv/backend/amd64/prod/bin/openjdk-17-linux-amd64.tar.gz'')
   \<and> installAllSoftware sampleEnv ''/srv/backend'' ''linux'' ''amd64'' emptyDisk
         [(''prod'', [(''jdk-version'', ''17'')])] =
       Some ([(''jdk'', ''17'', Inl (DownloadHTTPError 404))], afterJdkJob)"
proof -
  have root: "normalizedAbsolute ''/srv/backend''"
    by (simp add: normalizedAbsolute_def path_normalize_def)
  have absent: "''/srv/backend/amd64/prod/bin/openjdk-17-linux-amd64.tar.gz'' \<notin> files emptyDisk"
    by (simp add: emptyDisk_def)
  have download: "downloadFile sampleEnv emptyDisk
      ''https://github.com/shenxinli/java-release/releases/download/v17/openjdk-17-linux-amd64.tar.gz''
      ''/srv/backend/amd64/prod/bin/openjdk-17-linux-amd64.tar.gz'' =
    Some (Inl (DownloadHTTPError 404), afterJdkJob)"
    by (subst downloadFile_request [OF absent])
       (simp_all add: sampleEnv_fields sampleNet_def afterRequest_def createWriteStream_def
          emptyDisk_def afterJdkJob_def)
  from jdk17_end_to_end [OF root, of sampleEnv emptyDisk] root download
  show ?thesis by simp
qed

text \<open>
  The one directory that is not covered above is the root directory, whose name ends
  with a slash: for a script there the destination is the same path below the root.
\<close>

lemma jdk17_in_root_directory:
  "jobTarget ''/'' ''linux'' ''amd64'' ''prod'' ''jdk'' ''17'' =
     Inr (''https://github.com/shenxinli/java-release/releases/download/v17/openjdk-17-linux-amd64.tar.gz'',
          ''/amd64/prod/bin/openjdk-17-linux-amd64.tar.gz'')"
  by (simp add: jobTarget_def generateDownloadLink_def lookupPrefix_def downloadPrefixes_def
        path_join_def path_normalize_def path_basename_def)

end
